theory Spec2Isabelle
  imports Main "HOL-Library.Sublist"
begin

section \<open>Exceptions, strings and the file system\<close>

text \<open>
  The two handlers of \<^verbatim>\<open>execute_code\<close> tell \<^verbatim>\<open>subprocess.TimeoutExpired\<close> from every
  other instance of \<^verbatim>\<open>Exception\<close>, so the model has one constructor for each. The argument
  is what \<^verbatim>\<open>str(e)\<close> gives. Signals that are no instances of \<^verbatim>\<open>Exception\<close>
  (\<^verbatim>\<open>KeyboardInterrupt\<close>, \<^verbatim>\<open>SystemExit\<close>) are raised by no operation used here, they
  arrive from outside at any moment, and they are not part of this model.
\<close>

datatype exc = TimeoutExpired string | Exception string

primrec str :: "exc \<Rightarrow> string" where
  "str (TimeoutExpired m) = m"
| "str (Exception m) = m"

definition quote :: "string \<Rightarrow> string" where
  "quote s = CHR 0x27 # s @ [CHR 0x27]"

text \<open>
  A path is the list of its components below the root; \<open>fspath\<close> is the text a path is
  passed to the child as. The file system holds the directories and the regular files with
  their contents.
\<close>

type_synonym path = "string list"

definition fspath :: "path \<Rightarrow> string" where
  "fspath p = concat (map (\<lambda>c. CHR ''/'' # c) p)"

record filesystem =
  dirs :: "path set"
  files :: "path \<rightharpoonup> string"

section \<open>The operating system as the code sees it\<close>

text \<open>
  What \<^verbatim>\<open>subprocess.run(..., capture_output=True, text=True, timeout=...)\<close> gives back:
  a completed process with its captured output and return code, or an exception
  (\<^verbatim>\<open>TimeoutExpired\<close> when the child outlives the timeout, after \<^verbatim>\<open>run\<close> has killed and
  reaped it; anything else when the child cannot be started or its output not decoded).
\<close>

datatype run_outcome = Completed string string int | Raised exc

text \<open>
  Everything the code cannot decide by itself is a field of the environment: the home
  directory, the interpreter, the random names \<^verbatim>\<open>tempfile\<close> draws, the faults of the
  single system calls (the text of the \<^verbatim>\<open>OSError\<close>, \<^verbatim>\<open>TypeError\<close> or \<^verbatim>\<open>UnicodeError\<close>
  they raise) and the child process, which sees its argument vector and the timeout and
  may change the file system while it runs.
\<close>

record env =
  home :: path
  sys_executable :: string
  candidate_names :: "string list"
  makedirs_fault :: "path \<Rightarrow> string option"
  open_fault :: "path \<Rightarrow> string option"
  write_fault :: "string \<Rightarrow> string option"
  flush_fault :: "string option"
  close_fault :: "string option"
  run :: "string list \<Rightarrow> int \<Rightarrow> filesystem \<Rightarrow> run_outcome \<times> filesystem"
  unlink_fault :: "path \<Rightarrow> string option"

text \<open>
  \<^verbatim>\<open>os.makedirs(p, exist_ok=True)\<close>: every missing directory on the way to \<open>p\<close> is
  created; directories that exist are left alone; a regular file in the way is an error:
  at \<open>p\<close> itself the file exists, above \<open>p\<close> the first directory to be made below the
  file cannot be made.
\<close>

definition makedirs :: "env \<Rightarrow> path \<Rightarrow> filesystem \<Rightarrow> (exc + unit) \<times> filesystem" where
  "makedirs e p fs =
     (case find (\<lambda>q. files fs q \<noteq> None) (prefixes p) of
        Some q \<Rightarrow>
          (Inl (Exception
             (if q = p then ''[Errno 17] File exists: '' @ quote (fspath p)
              else ''[Errno 20] Not a directory: '' @ quote (fspath (take (Suc (length q)) p)))),
           fs)
      | None \<Rightarrow>
          (case makedirs_fault e p of
             Some m \<Rightarrow> (Inl (Exception m), fs)
           | None \<Rightarrow> (Inr (), fs\<lparr>dirs := dirs fs \<union> set (prefixes p)\<rparr>)))"

text \<open>
  \<^verbatim>\<open>tempfile.NamedTemporaryFile(mode='w', suffix=sfx, dir=d, delete=False)\<close>: the random
  names are tried in turn, each opened with exclusive creation, so a name that exists is
  skipped and the file that is created is new and empty. A missing directory fails at the
  first name, as does a regular file where the directory or one above it should be.
\<close>

fun mkstemp_inner :: "env \<Rightarrow> path \<Rightarrow> string \<Rightarrow> string list \<Rightarrow> filesystem \<Rightarrow> (exc + path) \<times> filesystem" where
  "mkstemp_inner e d sfx [] fs =
     (Inl (Exception ''[Errno 17] No usable temporary file name found''), fs)"
| "mkstemp_inner e d sfx (n # ns) fs =
     (let p = d @ [''tmp'' @ n @ sfx] in
      if d \<notin> dirs fs
      then (Inl (Exception
              ((if list_ex (\<lambda>q. files fs q \<noteq> None) (prefixes d)
                then ''[Errno 20] Not a directory: ''
                else ''[Errno 2] No such file or directory: '') @ quote (fspath p))), fs)
      else if p \<in> dom (files fs) \<union> dirs fs then mkstemp_inner e d sfx ns fs
      else case open_fault e p of
             Some m \<Rightarrow> (Inl (Exception m), fs)
           | None \<Rightarrow> (Inr p, fs\<lparr>files := (files fs)(p \<mapsto> [])\<rparr>))"

definition NamedTemporaryFile :: "env \<Rightarrow> string \<Rightarrow> path \<Rightarrow> filesystem \<Rightarrow> (exc + path) \<times> filesystem" where
  "NamedTemporaryFile e sfx d fs = mkstemp_inner e d sfx (candidate_names e) fs"

text \<open>
  The body of the \<^verbatim>\<open>with\<close> block and its exit: \<^verbatim>\<open>write\<close>, \<^verbatim>\<open>flush\<close>, then the
  close at the end of the block. The file is closed on every way out of the block and,
  with \<^verbatim>\<open>delete=False\<close>, stays where it is.
\<close>

definition write_flush_close :: "env \<Rightarrow> path \<Rightarrow> string \<Rightarrow> filesystem \<Rightarrow> (exc + unit) \<times> filesystem" where
  "write_flush_close e p code fs =
     (case write_fault e code of
        Some m \<Rightarrow> (Inl (Exception m), fs)
      | None \<Rightarrow>
         (case flush_fault e of
            Some m \<Rightarrow> (Inl (Exception m), fs)
          | None \<Rightarrow>
             (case close_fault e of
                Some m \<Rightarrow> (Inl (Exception m), fs\<lparr>files := (files fs)(p \<mapsto> code)\<rparr>)
              | None \<Rightarrow> (Inr (), fs\<lparr>files := (files fs)(p \<mapsto> code)\<rparr>))))"

text \<open>
  \<^verbatim>\<open>os.unlink(p)\<close>: a directory is not removed, and a file that is not there is an error.
\<close>

definition unlink :: "env \<Rightarrow> path \<Rightarrow> filesystem \<Rightarrow> (exc + unit) \<times> filesystem" where
  "unlink e p fs =
     (if p \<in> dirs fs
      then (Inl (Exception (''[Errno 21] Is a directory: '' @ quote (fspath p))), fs)
      else if files fs p = None
      then (Inl (Exception (''[Errno 2] No such file or directory: '' @ quote (fspath p))), fs)
      else case unlink_fault e p of
             Some m \<Rightarrow> (Inl (Exception m), fs)
           | None \<Rightarrow> (Inr (), fs\<lparr>files := (files fs)(p := None)\<rparr>))"

section \<open>code\_executor.py\<close>

record CodeExecutor =
  workspace_dir :: path

record ExecutionResult =
  stdout :: string
  stderr :: string
  returncode :: int

definition ensure_workspace :: "env \<Rightarrow> CodeExecutor \<Rightarrow> filesystem \<Rightarrow> (exc + unit) \<times> filesystem" where
  "ensure_workspace e self fs = makedirs e (workspace_dir self) fs"

text \<open>
  The constructor: \<^verbatim>\<open>workspace_dir or Path.home() / ".termux_ai_assistant"\<close>, then
  \<^verbatim>\<open>_ensure_workspace\<close>, outside any \<^verbatim>\<open>try\<close>. An argument that is \<^verbatim>\<open>None\<close> or
  empty is \<open>None\<close> here.
\<close>

definition CodeExecutor_init :: "env \<Rightarrow> path option \<Rightarrow> filesystem \<Rightarrow> (exc + CodeExecutor) \<times> filesystem" where
  "CodeExecutor_init e workspace fs =
     (let self = \<lparr>workspace_dir =
                   (case workspace of
                      None \<Rightarrow> home e @ [''.termux_ai_assistant'']
                    | Some d \<Rightarrow> d)\<rparr>
      in case ensure_workspace e self fs of
           (Inl x, fs') \<Rightarrow> (Inl x, fs')
         | (Inr u, fs') \<Rightarrow> (Inr self, fs'))"

text \<open>
  The \<^verbatim>\<open>try\<close> block of \<^verbatim>\<open>execute_code\<close>, statement by statement; the first exception
  ends it.
\<close>

definition execute_code_try :: "env \<Rightarrow> CodeExecutor \<Rightarrow> string \<Rightarrow> int \<Rightarrow> filesystem \<Rightarrow> (exc + ExecutionResult) \<times> filesystem" where
  "execute_code_try e self code timeout fs =
     (case NamedTemporaryFile e ''.py'' (workspace_dir self) fs of
        (Inl x, fs1) \<Rightarrow> (Inl x, fs1)
      | (Inr temp_file, fs1) \<Rightarrow>
         (case write_flush_close e temp_file code fs1 of
            (Inl x, fs2) \<Rightarrow> (Inl x, fs2)
          | (Inr u, fs2) \<Rightarrow>
             (case run e [sys_executable e, fspath temp_file] timeout fs2 of
                (Raised x, fs3) \<Rightarrow> (Inl x, fs3)
              | (Completed out err rc, fs3) \<Rightarrow>
                 (case unlink e temp_file fs3 of
                    (Inl x, fs4) \<Rightarrow> (Inl x, fs4)
                  | (Inr u, fs4) \<Rightarrow>
                     (Inr \<lparr>stdout = out, stderr = err, returncode = rc\<rparr>, fs4)))))"

text \<open>The two handlers, in the order of the source.\<close>

definition execute_code :: "env \<Rightarrow> CodeExecutor \<Rightarrow> string \<Rightarrow> int \<Rightarrow> filesystem \<Rightarrow> (exc + ExecutionResult) \<times> filesystem" where
  "execute_code e self code timeout fs =
     (case execute_code_try e self code timeout fs of
        (Inr r, fs') \<Rightarrow> (Inr r, fs')
      | (Inl (TimeoutExpired m), fs') \<Rightarrow>
          (Inr \<lparr>stdout = '''', stderr = ''Execution timed out'', returncode = - 1\<rparr>, fs')
      | (Inl (Exception m), fs') \<Rightarrow>
          (Inr \<lparr>stdout = '''', stderr = str (Exception m), returncode = - 1\<rparr>, fs'))"

definition default_timeout :: int where
  "default_timeout = 30"

section \<open>ai\_client.py\<close>

text \<open>
  A \<open>char\<close> stands for one character of a Python string with a code point below 256.
  \<^verbatim>\<open>str.strip()\<close> without argument removes the characters for which \<^verbatim>\<open>str.isspace\<close>
  holds; on these code points they are the ones listed.
\<close>

definition isspace :: "char \<Rightarrow> bool" where
  "isspace c = (of_char c \<in> {9, 10, 11, 12, 13, 28, 29, 30, 31, 32, 133, 160 :: nat})"

definition strip :: "string \<Rightarrow> string" where
  "strip s = rev (dropWhile isspace (rev (dropWhile isspace s)))"

text \<open>
  The backend is the Vertex AI library. A value read from a response is a string or
  \<^verbatim>\<open>None\<close>; reading the attribute \<^verbatim>\<open>text\<close> of a response gives such a value or raises
  (the response has no text). \<open>predict\<close> sees the requests made before, so that the
  backend may answer the same request differently the next time.
\<close>

datatype pyval = PyNone | PyStr string

datatype response = Response "exc + pyval"

record backend =
  load_credentials_from_file :: "string \<Rightarrow> exc + string \<times> string"
  aiplatform_init :: "string \<Rightarrow> exc option"
  aiplatform_Model :: "string \<Rightarrow> exc option"
  predict :: "string list \<Rightarrow> string \<Rightarrow> exc + response"

record AIClient =
  credentials_path :: string

definition initialize_client_try :: "backend \<Rightarrow> AIClient \<Rightarrow> exc + unit" where
  "initialize_client_try b self =
     (case load_credentials_from_file b (credentials_path self) of
        Inl x \<Rightarrow> Inl x
      | Inr (credentials, project) \<Rightarrow>
         (case aiplatform_init b credentials of
            Some x \<Rightarrow> Inl x
          | None \<Rightarrow> Inr ()))"

definition initialize_client :: "backend \<Rightarrow> AIClient \<Rightarrow> exc + unit" where
  "initialize_client b self =
     (case initialize_client_try b self of
        Inl x \<Rightarrow> Inl (Exception (''Failed to initialize AI client: '' @ str x))
      | Inr u \<Rightarrow> Inr u)"

definition AIClient_init :: "backend \<Rightarrow> string \<Rightarrow> exc + AIClient" where
  "AIClient_init b path =
     (let self = \<lparr>credentials_path = path\<rparr>
      in case initialize_client b self of
           Inl x \<Rightarrow> Inl x
         | Inr u \<Rightarrow> Inr self)"

text \<open>\<^verbatim>\<open>response_text.strip()\<close>; \<^verbatim>\<open>None\<close> has no such method.\<close>

definition extract_code :: "pyval \<Rightarrow> exc + string" where
  "extract_code response_text =
     (case response_text of
        PyStr s \<Rightarrow> Inr (strip s)
      | PyNone \<Rightarrow>
          Inl (Exception (quote ''NoneType'' @ '' object has no attribute '' @ quote ''strip'')))"

text \<open>The f-string of \<^verbatim>\<open>generate_code\<close>, with the indentation it has in the source.\<close>

definition nl :: string where
  "nl = [CHR 0x0A]"

definition indent :: string where
  "indent = replicate 12 (CHR '' '')"

definition format_prompt :: "string \<Rightarrow> string" where
  "format_prompt prompt =
     nl @ indent @ ''Generate Python code for the following request:'' @
     nl @ indent @ prompt @
     nl @ indent @
     nl @ indent @ ''Consider that this code will run in Termux on Android.'' @
     nl @ indent @ ''Only include the code implementation, no explanations.'' @
     nl @ indent"

text \<open>
  The \<^verbatim>\<open>try\<close> block of \<^verbatim>\<open>generate_code\<close>. The state is the list of the requests
  sent to the model so far.
\<close>

definition generate_code_try :: "backend \<Rightarrow> AIClient \<Rightarrow> string \<Rightarrow> string list \<Rightarrow> (exc + string) \<times> string list" where
  "generate_code_try b self prompt sent =
     (case aiplatform_Model b ''gemini-1.5-pro'' of
        Some x \<Rightarrow> (Inl x, sent)
      | None \<Rightarrow>
         (let formatted_prompt = format_prompt prompt
          in case predict b sent formatted_prompt of
               Inl x \<Rightarrow> (Inl x, sent @ [formatted_prompt])
             | Inr (Response response_text) \<Rightarrow>
                (case response_text of
                   Inl x \<Rightarrow> (Inl x, sent @ [formatted_prompt])
                 | Inr v \<Rightarrow> (extract_code v, sent @ [formatted_prompt]))))"

definition generate_code :: "backend \<Rightarrow> AIClient \<Rightarrow> string \<Rightarrow> string list \<Rightarrow> (exc + string) \<times> string list" where
  "generate_code b self prompt sent =
     (case generate_code_try b self prompt sent of
        (Inl x, sent') \<Rightarrow> (Inl (Exception (''Code generation failed: '' @ str x)), sent')
      | (Inr c, sent') \<Rightarrow> (Inr c, sent'))"

section \<open>Concrete runs\<close>

text \<open>
  A workspace \<^verbatim>\<open>/ws\<close> that exists and is empty, an executor on it, the scratch file the
  first random name gives, and the file system once that file is created and once the
  code is in it.
\<close>

definition fs_ws :: filesystem where
  "fs_ws = \<lparr>dirs = {[], [''ws'']}, files = Map.empty\<rparr>"

definition executor_ws :: CodeExecutor where
  "executor_ws = \<lparr>workspace_dir = [''ws'']\<rparr>"

definition scratch_ws :: path where
  "scratch_ws = [''ws'', ''tmpk3x9q2ab.py'']"

definition fs_created :: filesystem where
  "fs_created = fs_ws\<lparr>files := [scratch_ws \<mapsto> []]\<rparr>"

definition fs_written :: "string \<Rightarrow> filesystem" where
  "fs_written code = fs_ws\<lparr>files := [scratch_ws \<mapsto> code]\<rparr>"

text \<open>
  The scratch file the second random name gives, and the file system with two scratch
  files: the first holds one code, the second is created, or holds another code.
\<close>

definition scratch_ws2 :: path where
  "scratch_ws2 = [''ws'', ''tmpw81mzt0c.py'']"



text \<open>
  Five source texts: one prints a line; one sleeps for a minute; one sends its own
  process signal 1 (\<^verbatim>\<open>SIGHUP\<close>); one prints a line and removes its own script; one
  writes to the standard error and exits with 3.
\<close>

definition code_hello :: string where
  "code_hello = ''print('' @ quote ''hello'' @ '')''"

definition code_sleep :: string where
  "code_sleep = ''import time'' @ nl @ ''time.sleep(60)''"

definition code_hangup :: string where
  "code_hangup = ''import os'' @ nl @ ''os.kill(os.getpid(), 1)''"

definition code_selfremove :: string where
  "code_selfremove =
     ''import os, sys'' @ nl @ ''print('' @ quote ''hello'' @ '')'' @ nl @ ''os.unlink(sys.argv[0])''"

definition code_fail :: string where
  "code_fail =
     ''import sys'' @ nl @ ''sys.stderr.write('' @ quote ''boom'' @ '')'' @ nl @ ''sys.exit(3)''"

text \<open>
  The child process on these five scripts, as \<^verbatim>\<open>subprocess.run\<close> reports it for
  timeouts of some seconds or minutes. With a timeout that is not positive no child
  completes in time. Otherwise the child reads the script named on its command line, one
  of the two scratch files. The sleeping script outlives every timeout below a minute.
  \<^verbatim>\<open>subprocess\<close> reports a child that signal \<open>n\<close> has ended with the return code
  \<open>- n\<close>.
\<close>

definition cannot_open :: "string list \<Rightarrow> run_outcome" where
  "cannot_open argv =
     Completed []
       (concat (take 1 argv) @ '': can'' @ [CHR 0x27] @ ''t open file ''
          @ quote (concat (take 1 (tl argv))) @ '': [Errno 2] No such file or directory'' @ nl)
       2"

definition python3 :: "string list \<Rightarrow> int \<Rightarrow> filesystem \<Rightarrow> run_outcome \<times> filesystem" where
  "python3 argv timeout fs =
     (if timeout \<le> 0 then (Raised (TimeoutExpired ''Command timed out''), fs)
      else case find (\<lambda>p. tl argv = [fspath p]) [scratch_ws, scratch_ws2] of
        None \<Rightarrow> (cannot_open argv, fs)
      | Some p \<Rightarrow>
         (case files fs p of
            None \<Rightarrow> (cannot_open argv, fs)
          | Some script \<Rightarrow>
              if script = code_hello then (Completed (''hello'' @ nl) [] 0, fs)
              else if script = code_sleep then
                (if timeout < 60 then (Raised (TimeoutExpired ''Command timed out''), fs)
                 else (Completed [] [] 0, fs))
              else if script = code_hangup then (Completed [] [] (- 1), fs)
              else if script = code_selfremove then
                (Completed (''hello'' @ nl) [] 0, fs\<lparr>files := (files fs)(p := None)\<rparr>)
              else if script = code_fail then (Completed [] ''boom'' 3, fs)
              else (Completed [] [] 0, fs)))"

text \<open>An operating system without faults.\<close>

definition env_termux :: env where
  "env_termux =
     \<lparr>home = [''data'', ''home''],
      sys_executable = ''/usr/bin/python3'',
      candidate_names = [''k3x9q2ab'', ''w81mzt0c''],
      makedirs_fault = (\<lambda>p. None),
      open_fault = (\<lambda>p. None),
      write_fault = (\<lambda>c. None),
      flush_fault = None,
      close_fault = None,
      run = python3,
      unlink_fault = (\<lambda>p. None)\<rparr>"

text \<open>The workspace is read-only by the time the scratch file is to be removed.\<close>

definition env_denied :: env where
  "env_denied =
     env_termux\<lparr>unlink_fault := (\<lambda>p. Some (''[Errno 13] Permission denied: '' @ quote (fspath p)))\<rparr>"

text \<open>The disk is full: the code cannot be flushed to the scratch file.\<close>

definition env_full :: env where
  "env_full = env_termux\<lparr>flush_fault := Some ''[Errno 28] No space left on device''\<rparr>"

text \<open>The workspace has been removed after the executor was constructed.\<close>

definition fs_removed :: filesystem where
  "fs_removed = \<lparr>dirs = {[]}, files = Map.empty\<rparr>"

text \<open>
  Backends: one that answers with a fenced block, one whose first request fails and whose
  later requests would succeed, one with unreadable credentials, and one whose answer has
  an empty text.
\<close>

definition client0 :: AIClient where
  "client0 = \<lparr>credentials_path = ''/data/home/.config/termux_ai_assistant/credentials.json''\<rparr>"

definition fenced_answer :: string where
  "fenced_answer = nl @ ''```python'' @ nl @ ''print(1)'' @ nl @ ''```'' @ nl @ ''  ''"

definition backend_ok :: backend where
  "backend_ok =
     \<lparr>load_credentials_from_file = (\<lambda>p. Inr (''credentials'', ''project'')),
      aiplatform_init = (\<lambda>c. None),
      aiplatform_Model = (\<lambda>n. None),
      predict = (\<lambda>sent p. Inr (Response (Inr (PyStr fenced_answer))))\<rparr>"

definition backend_flaky :: backend where
  "backend_flaky =
     backend_ok\<lparr>predict := (\<lambda>sent p.
        if sent = [] then Inl (Exception ''503 Service Unavailable'')
        else Inr (Response (Inr (PyStr fenced_answer))))\<rparr>"

definition backend_nocred :: backend where
  "backend_nocred =
     backend_ok\<lparr>load_credentials_from_file :=
        (\<lambda>p. Inl (Exception ''File credentials.json was not found.''))\<rparr>"

definition backend_empty :: backend where
  "backend_empty = backend_ok\<lparr>predict := (\<lambda>sent p. Inr (Response (Inr (PyStr []))))\<rparr>"

section \<open>The steps of the try block\<close>

lemma unlink_raises_Exception:
  "unlink e p fs = (Inl x, fs') \<Longrightarrow> x = Exception (str x)"
  by (auto simp: unlink_def split: if_splits option.splits)

lemma try_no_file:
  "NamedTemporaryFile e ''.py'' (workspace_dir self) fs = (Inl x, fs1)
   \<Longrightarrow> execute_code_try e self code timeout fs = (Inl x, fs1)"
  by (simp add: execute_code_try_def)

lemma try_not_written:
  "NamedTemporaryFile e ''.py'' (workspace_dir self) fs = (Inr p, fs1)
   \<Longrightarrow> write_flush_close e p code fs1 = (Inl x, fs2)
   \<Longrightarrow> execute_code_try e self code timeout fs = (Inl x, fs2)"
  by (simp add: execute_code_try_def)

lemma try_run_raised:
  "NamedTemporaryFile e ''.py'' (workspace_dir self) fs = (Inr p, fs1)
   \<Longrightarrow> write_flush_close e p code fs1 = (Inr u, fs2)
   \<Longrightarrow> run e [sys_executable e, fspath p] timeout fs2 = (Raised x, fs3)
   \<Longrightarrow> execute_code_try e self code timeout fs = (Inl x, fs3)"
  by (simp add: execute_code_try_def)

lemma try_not_unlinked:
  "NamedTemporaryFile e ''.py'' (workspace_dir self) fs = (Inr p, fs1)
   \<Longrightarrow> write_flush_close e p code fs1 = (Inr u, fs2)
   \<Longrightarrow> run e [sys_executable e, fspath p] timeout fs2 = (Completed out err rc, fs3)
   \<Longrightarrow> unlink e p fs3 = (Inl x, fs4)
   \<Longrightarrow> execute_code_try e self code timeout fs = (Inl x, fs4)"
  by (simp add: execute_code_try_def)

lemma try_returned:
  "NamedTemporaryFile e ''.py'' (workspace_dir self) fs = (Inr p, fs1)
   \<Longrightarrow> write_flush_close e p code fs1 = (Inr u, fs2)
   \<Longrightarrow> run e [sys_executable e, fspath p] timeout fs2 = (Completed out err rc, fs3)
   \<Longrightarrow> unlink e p fs3 = (Inr u', fs4)
   \<Longrightarrow> execute_code_try e self code timeout fs
       = (Inr \<lparr>stdout = out, stderr = err, returncode = rc\<rparr>, fs4)"
  by (simp add: execute_code_try_def)

text \<open>Conversely, a try block that reaches its \<^verbatim>\<open>return\<close> has gone through all four steps.\<close>

lemma try_returned_steps:
  assumes "execute_code_try e self code timeout fs = (Inr r, fs4)"
  shows "\<exists>p fs1 fs2 fs3.
           NamedTemporaryFile e ''.py'' (workspace_dir self) fs = (Inr p, fs1)
         \<and> write_flush_close e p code fs1 = (Inr (), fs2)
         \<and> run e [sys_executable e, fspath p] timeout fs2
             = (Completed (stdout r) (stderr r) (returncode r), fs3)
         \<and> unlink e p fs3 = (Inr (), fs4)"
  using assms
  by (auto simp: execute_code_try_def split: prod.splits sum.splits run_outcome.splits)

text \<open>The handlers.\<close>

lemma handler_returned:
  "execute_code_try e self code timeout fs = (Inr r, fs')
   \<Longrightarrow> execute_code e self code timeout fs = (Inr r, fs')"
  by (simp add: execute_code_def)

lemma handler_timeout:
  "execute_code_try e self code timeout fs = (Inl (TimeoutExpired m), fs')
   \<Longrightarrow> execute_code e self code timeout fs
       = (Inr \<lparr>stdout = [], stderr = ''Execution timed out'', returncode = - 1\<rparr>, fs')"
  by (simp add: execute_code_def)

lemma handler_exception:
  "execute_code_try e self code timeout fs = (Inl (Exception m), fs')
   \<Longrightarrow> execute_code e self code timeout fs
       = (Inr \<lparr>stdout = [], stderr = m, returncode = - 1\<rparr>, fs')"
  by (simp add: execute_code_def)

text \<open>The concrete runs, step by step.\<close>

lemmas concrete_defs =
  env_termux_def executor_ws_def fs_ws_def scratch_ws_def fs_created_def fs_written_def Let_def

lemmas code_defs =
  code_hello_def code_sleep_def code_hangup_def code_selfremove_def code_fail_def nl_def
  quote_def

lemma termux_created:
  "NamedTemporaryFile env_termux ''.py'' (workspace_dir executor_ws) fs_ws
     = (Inr scratch_ws, fs_created)"
  by (simp add: NamedTemporaryFile_def concrete_defs)

lemma termux_written:
  "write_flush_close env_termux scratch_ws code fs_created = (Inr (), fs_written code)"
  by (simp add: write_flush_close_def concrete_defs)

lemma termux_unlinked:
  "unlink env_termux scratch_ws (fs_written code) = (Inr (), fs_ws)"
  by (simp add: unlink_def concrete_defs)

lemma written_scratch: "files (fs_written code) scratch_ws = Some code"
  by (simp add: fs_written_def)

lemma python3_reads_script:
  "0 < timeout \<Longrightarrow>
   run env_termux [sys_executable env_termux, fspath scratch_ws] timeout (fs_written code)
     = (if code = code_hello then (Completed (''hello'' @ nl) [] 0, fs_written code)
        else if code = code_sleep then
          (if timeout < 60 then (Raised (TimeoutExpired ''Command timed out''), fs_written code)
           else (Completed [] [] 0, fs_written code))
        else if code = code_hangup then (Completed [] [] (- 1), fs_written code)
        else if code = code_selfremove then (Completed (''hello'' @ nl) [] 0, fs_ws)
        else if code = code_fail then (Completed [] ''boom'' 3, fs_written code)
        else (Completed [] [] 0, fs_written code))"
  by (simp add: env_termux_def python3_def written_scratch) (simp add: fs_written_def fs_ws_def)

lemma run_hello:
  "run env_termux [sys_executable env_termux, fspath scratch_ws] default_timeout
       (fs_written code_hello)
     = (Completed (''hello'' @ nl) [] 0, fs_written code_hello)"
  by (simp add: python3_reads_script default_timeout_def)

lemma run_sleep:
  "0 < timeout \<Longrightarrow> timeout < 60 \<Longrightarrow>
   run env_termux [sys_executable env_termux, fspath scratch_ws] timeout (fs_written code_sleep)
     = (Raised (TimeoutExpired ''Command timed out''), fs_written code_sleep)"
  by (simp add: python3_reads_script) (simp add: code_defs)

lemma run_hangup:
  "run env_termux [sys_executable env_termux, fspath scratch_ws] default_timeout
       (fs_written code_hangup)
     = (Completed [] [] (- 1), fs_written code_hangup)"
  by (simp add: python3_reads_script default_timeout_def) (simp add: code_defs)

lemma run_selfremove:
  "run env_termux [sys_executable env_termux, fspath scratch_ws] default_timeout
       (fs_written code_selfremove)
     = (Completed (''hello'' @ nl) [] 0, fs_ws)"
  by (simp add: python3_reads_script default_timeout_def) (simp add: code_defs)


lemma unlink_removed:
  "unlink env_termux scratch_ws fs_ws
     = (Inl (Exception (''[Errno 2] No such file or directory: '' @ quote (fspath scratch_ws))), fs_ws)"
  by (simp add: unlink_def fs_ws_def scratch_ws_def)

lemma hello_try:
  "execute_code_try env_termux executor_ws code_hello default_timeout fs_ws
     = (Inr \<lparr>stdout = ''hello'' @ nl, stderr = [], returncode = 0\<rparr>, fs_ws)"
  by (rule try_returned [OF termux_created termux_written run_hello termux_unlinked])

lemma full_try:
  "execute_code_try env_full executor_ws code_hello default_timeout fs_ws
     = (Inl (Exception ''[Errno 28] No space left on device''), fs_created)"
proof -
  have a: "NamedTemporaryFile env_full ''.py'' (workspace_dir executor_ws) fs_ws
             = (Inr scratch_ws, fs_created)"
    by (simp add: NamedTemporaryFile_def env_full_def concrete_defs)
  have b: "write_flush_close env_full scratch_ws code_hello fs_created
             = (Inl (Exception ''[Errno 28] No space left on device''), fs_created)"
    by (simp add: write_flush_close_def env_full_def concrete_defs)
  show ?thesis by (rule try_not_written [OF a b])
qed

section \<open>The sandboxed runner\<close>

text \<open>
  C1. The claim: on every outcome branch of \<open>execute_code\<close> the scratch file of the call is
  gone when the call returns. The code removes the file on the way to its \<^verbatim>\<open>return\<close>
  only; both handlers return without removing it. Here the child sleeps longer than the
  timeout of one second: the call returns the timeout result, and the scratch file it
  created, which was not there before, is still in the workspace with the code in it.
\<close>

theorem execute_code_timeout_keeps_scratch_file:
  "NamedTemporaryFile env_termux ''.py'' (workspace_dir executor_ws) fs_ws
     = (Inr scratch_ws, fs_created)
   \<and> files fs_ws scratch_ws = None
   \<and> fst (execute_code env_termux executor_ws code_sleep 1 fs_ws)
       = Inr \<lparr>stdout = [], stderr = ''Execution timed out'', returncode = - 1\<rparr>
   \<and> files (snd (execute_code env_termux executor_ws code_sleep 1 fs_ws)) scratch_ws
       = Some code_sleep"
proof -
  have "run env_termux [sys_executable env_termux, fspath scratch_ws] 1 (fs_written code_sleep)
          = (Raised (TimeoutExpired ''Command timed out''), fs_written code_sleep)"
    by (rule run_sleep) simp_all
  then have "execute_code_try env_termux executor_ws code_sleep 1 fs_ws
          = (Inl (TimeoutExpired ''Command timed out''), fs_written code_sleep)"
    by (rule try_run_raised [OF termux_created termux_written])
  then have "execute_code env_termux executor_ws code_sleep 1 fs_ws
          = (Inr \<lparr>stdout = [], stderr = ''Execution timed out'', returncode = - 1\<rparr>,
             fs_written code_sleep)"
    by (rule handler_timeout)
  then show ?thesis
    by (simp add: termux_created written_scratch) (simp add: fs_ws_def)
qed








text \<open>
  C3. When the child outlives the timeout, that is when \<^verbatim>\<open>subprocess.run\<close>, which has
  killed and reaped the child by then, raises \<^verbatim>\<open>TimeoutExpired\<close>, \<open>execute_code\<close>
  returns exactly the result with no output, the error text \<^verbatim>\<open>Execution timed out\<close> and
  the return code \<open>-1\<close>.
\<close>

theorem execute_code_timeout:
  assumes "NamedTemporaryFile e ''.py'' (workspace_dir self) fs = (Inr p, fs1)"
    and "write_flush_close e p code fs1 = (Inr (), fs2)"
    and "run e [sys_executable e, fspath p] timeout fs2 = (Raised (TimeoutExpired m), fs3)"
  shows "execute_code e self code timeout fs
           = (Inr \<lparr>stdout = [], stderr = ''Execution timed out'', returncode = - 1\<rparr>, fs3)"
proof -
  have "execute_code_try e self code timeout fs = (Inl (TimeoutExpired m), fs3)"
    using assms by (rule try_run_raised)
  then show ?thesis
    by (rule handler_timeout)
qed

theorem execute_code_timeout_witness:
  "NamedTemporaryFile env_termux ''.py'' (workspace_dir executor_ws) fs_ws
     = (Inr scratch_ws, fs_created)
   \<and> write_flush_close env_termux scratch_ws code_sleep fs_created
       = (Inr (), fs_written code_sleep)
   \<and> run env_termux [sys_executable env_termux, fspath scratch_ws] default_timeout
         (fs_written code_sleep)
       = (Raised (TimeoutExpired ''Command timed out''), fs_written code_sleep)
   \<and> execute_code env_termux executor_ws code_sleep default_timeout fs_ws
       = (Inr \<lparr>stdout = [], stderr = ''Execution timed out'', returncode = - 1\<rparr>,
          fs_written code_sleep)"
proof -
  have r: "run env_termux [sys_executable env_termux, fspath scratch_ws] default_timeout
             (fs_written code_sleep)
           = (Raised (TimeoutExpired ''Command timed out''), fs_written code_sleep)"
    by (rule run_sleep) (simp_all add: default_timeout_def)
  show ?thesis
    using execute_code_timeout [OF termux_created termux_written r]
      termux_created termux_written r
    by simp
qed

text \<open>
  C5. The claim: whenever the child completes within the timeout, \<open>execute_code\<close> returns
  the captured output, the captured error text and the child's return code. The code
  removes the scratch file between the child's end and the \<^verbatim>\<open>return\<close>, inside the try
  block, so the claim holds when that removal succeeds: then the result is exactly what
  the child gave, and a child that prints a line and exits with 0 gives that line and 0.
\<close>

theorem execute_code_completed:
  assumes "NamedTemporaryFile e ''.py'' (workspace_dir self) fs = (Inr p, fs1)"
    and "write_flush_close e p code fs1 = (Inr (), fs2)"
    and "run e [sys_executable e, fspath p] timeout fs2 = (Completed out err rc, fs3)"
    and "unlink e p fs3 = (Inr (), fs4)"
  shows "execute_code e self code timeout fs
           = (Inr \<lparr>stdout = out, stderr = err, returncode = rc\<rparr>, fs4)"
proof -
  have "execute_code_try e self code timeout fs
          = (Inr \<lparr>stdout = out, stderr = err, returncode = rc\<rparr>, fs4)"
    using assms by (rule try_returned)
  then show ?thesis
    by (rule handler_returned)
qed

theorem execute_code_completed_witness:
  "NamedTemporaryFile env_termux ''.py'' (workspace_dir executor_ws) fs_ws
     = (Inr scratch_ws, fs_created)
   \<and> write_flush_close env_termux scratch_ws code_hello fs_created
       = (Inr (), fs_written code_hello)
   \<and> run env_termux [sys_executable env_termux, fspath scratch_ws] default_timeout
         (fs_written code_hello)
       = (Completed (''hello'' @ nl) [] 0, fs_written code_hello)
   \<and> unlink env_termux scratch_ws (fs_written code_hello) = (Inr (), fs_ws)
   \<and> execute_code env_termux executor_ws code_hello default_timeout fs_ws
       = (Inr \<lparr>stdout = ''hello'' @ nl, stderr = [], returncode = 0\<rparr>, fs_ws)"
  using execute_code_completed [OF termux_created termux_written run_hello termux_unlinked]
    termux_created termux_written run_hello termux_unlinked
  by simp

text \<open>
  The claim as it is written fails when the removal fails. Here the child prints its line,
  removes its own script and exits with 0; \<^verbatim>\<open>os.unlink\<close> then finds no file, and the
  caller gets the return code \<open>-1\<close> and none of the output.
\<close>

theorem execute_code_completed_counterexample:
  "run env_termux [sys_executable env_termux, fspath scratch_ws] default_timeout
       (fs_written code_selfremove)
     = (Completed (''hello'' @ nl) [] 0, fs_ws)
   \<and> execute_code env_termux executor_ws code_selfremove default_timeout fs_ws
     = (Inr \<lparr>stdout = [],
             stderr = ''[Errno 2] No such file or directory: '' @ quote (fspath scratch_ws),
             returncode = - 1\<rparr>, fs_ws)"
  using handler_exception [OF try_not_unlinked
      [OF termux_created termux_written run_selfremove unlink_removed]]
    run_selfremove
  by simp

text \<open>
  C10. When the child has completed and removing the scratch file then raises, the result
  carries nothing of what the child gave: no output, the text of the removal error, and
  the return code \<open>-1\<close>.
\<close>

theorem execute_code_unlink_failure:
  assumes "NamedTemporaryFile e ''.py'' (workspace_dir self) fs = (Inr p, fs1)"
    and "write_flush_close e p code fs1 = (Inr (), fs2)"
    and "run e [sys_executable e, fspath p] timeout fs2 = (Completed out err rc, fs3)"
    and "unlink e p fs3 = (Inl x, fs4)"
  shows "execute_code e self code timeout fs
           = (Inr \<lparr>stdout = [], stderr = str x, returncode = - 1\<rparr>, fs4)"
proof -
  have "execute_code_try e self code timeout fs = (Inl (Exception (str x)), fs4)"
    using try_not_unlinked [OF assms] unlink_raises_Exception [OF assms(4)] by simp
  then show ?thesis by (rule handler_exception)
qed

lemma denied_created:
  "NamedTemporaryFile env_denied ''.py'' (workspace_dir executor_ws) fs_ws
     = (Inr scratch_ws, fs_created)"
  by (simp add: NamedTemporaryFile_def env_denied_def concrete_defs)

lemma denied_written:
  "write_flush_close env_denied scratch_ws code fs_created = (Inr (), fs_written code)"
  by (simp add: write_flush_close_def env_denied_def concrete_defs)

lemma denied_run:
  "run env_denied [sys_executable env_denied, fspath scratch_ws] default_timeout
       (fs_written code_hello)
     = (Completed (''hello'' @ nl) [] 0, fs_written code_hello)"
  using run_hello by (simp add: env_denied_def)

lemma denied_unlink:
  "unlink env_denied scratch_ws (fs_written code)
     = (Inl (Exception (''[Errno 13] Permission denied: '' @ quote (fspath scratch_ws))),
        fs_written code)"
  by (simp add: unlink_def env_denied_def concrete_defs)

theorem execute_code_unlink_failure_witness:
  "NamedTemporaryFile env_denied ''.py'' (workspace_dir executor_ws) fs_ws
     = (Inr scratch_ws, fs_created)
   \<and> write_flush_close env_denied scratch_ws code_hello fs_created
       = (Inr (), fs_written code_hello)
   \<and> run env_denied [sys_executable env_denied, fspath scratch_ws] default_timeout
         (fs_written code_hello)
       = (Completed (''hello'' @ nl) [] 0, fs_written code_hello)
   \<and> unlink env_denied scratch_ws (fs_written code_hello)
       = (Inl (Exception (''[Errno 13] Permission denied: '' @ quote (fspath scratch_ws))),
          fs_written code_hello)
   \<and> execute_code env_denied executor_ws code_hello default_timeout fs_ws
       = (Inr \<lparr>stdout = [],
               stderr = ''[Errno 13] Permission denied: '' @ quote (fspath scratch_ws),
               returncode = - 1\<rparr>, fs_written code_hello)"
  using execute_code_unlink_failure [OF denied_created denied_written denied_run denied_unlink]
    denied_created denied_written denied_run denied_unlink
  by simp

text \<open>
  C4. The claim: the return code \<open>-1\<close> occurs only when the runner itself failed, so that
  a caller can tell such a failure from every return code of a child by testing for
  \<open>-1\<close>. What the code does: whenever the try block raises (a timeout or any other
  exception, the failure to remove the scratch file included) the return code is \<open>-1\<close>;
  whenever the try block reaches its \<^verbatim>\<open>return\<close> the return code is the one
  \<^verbatim>\<open>subprocess.run\<close> reported for the child of this call, unchanged, whatever its value.
\<close>

theorem execute_code_exit_status:
  "(\<forall>x fs'. execute_code_try e self code timeout fs = (Inl x, fs') \<longrightarrow>
       (\<exists>r. execute_code e self code timeout fs = (Inr r, fs') \<and> returncode r = - 1))
   \<and> (\<forall>r fs'. execute_code_try e self code timeout fs = (Inr r, fs') \<longrightarrow>
       execute_code e self code timeout fs = (Inr r, fs')
       \<and> (\<exists>p fs1 fs2 fs3.
             NamedTemporaryFile e ''.py'' (workspace_dir self) fs = (Inr p, fs1)
             \<and> write_flush_close e p code fs1 = (Inr (), fs2)
             \<and> run e [sys_executable e, fspath p] timeout fs2
                 = (Completed (stdout r) (stderr r) (returncode r), fs3)
             \<and> unlink e p fs3 = (Inr (), fs')))"
proof (intro conjI allI impI)
  fix x fs'
  assume "execute_code_try e self code timeout fs = (Inl x, fs')"
  then show "\<exists>r. execute_code e self code timeout fs = (Inr r, fs') \<and> returncode r = - 1"
    by (cases x) (simp_all add: handler_timeout handler_exception)
next
  fix r fs'
  assume t: "execute_code_try e self code timeout fs = (Inr r, fs')"
  then show "execute_code e self code timeout fs = (Inr r, fs')"
    by (rule handler_returned)
  show "\<exists>p fs1 fs2 fs3.
          NamedTemporaryFile e ''.py'' (workspace_dir self) fs = (Inr p, fs1)
          \<and> write_flush_close e p code fs1 = (Inr (), fs2)
          \<and> run e [sys_executable e, fspath p] timeout fs2
              = (Completed (stdout r) (stderr r) (returncode r), fs3)
          \<and> unlink e p fs3 = (Inr (), fs')"
    by (rule try_returned_steps [OF t])
qed

theorem execute_code_exit_status_witness:
  "execute_code_try env_full executor_ws code_hello default_timeout fs_ws
     = (Inl (Exception ''[Errno 28] No space left on device''), fs_created)
   \<and> (\<exists>r. execute_code env_full executor_ws code_hello default_timeout fs_ws = (Inr r, fs_created)
          \<and> returncode r = - 1)
   \<and> execute_code_try env_termux executor_ws code_hello default_timeout fs_ws
     = (Inr \<lparr>stdout = ''hello'' @ nl, stderr = [], returncode = 0\<rparr>, fs_ws)
   \<and> execute_code env_termux executor_ws code_hello default_timeout fs_ws
     = (Inr \<lparr>stdout = ''hello'' @ nl, stderr = [], returncode = 0\<rparr>, fs_ws)"
  using execute_code_exit_status [of env_full executor_ws code_hello default_timeout fs_ws]
    execute_code_exit_status [of env_termux executor_ws code_hello default_timeout fs_ws]
    full_try hello_try
  by simp

text \<open>
  The claim as it is written fails: here the child ends itself with signal 1, the try
  block reaches its \<^verbatim>\<open>return\<close>, nothing in the runner has failed, and the return code
  is \<open>-1\<close>.
\<close>

theorem execute_code_exit_status_counterexample:
  "run env_termux [sys_executable env_termux, fspath scratch_ws] default_timeout
       (fs_written code_hangup)
     = (Completed [] [] (- 1), fs_written code_hangup)
   \<and> execute_code_try env_termux executor_ws code_hangup default_timeout fs_ws
     = (Inr \<lparr>stdout = [], stderr = [], returncode = - 1\<rparr>, fs_ws)
   \<and> execute_code env_termux executor_ws code_hangup default_timeout fs_ws
     = (Inr \<lparr>stdout = [], stderr = [], returncode = - 1\<rparr>, fs_ws)"
  using try_returned [OF termux_created termux_written run_hangup termux_unlinked]
    handler_returned [OF try_returned [OF termux_created termux_written run_hangup termux_unlinked]]
    run_hangup
  by simp

section \<open>The workspace directory\<close>

lemma makedirs_result:
  assumes "makedirs e p fs = (Inr u, fs1)"
  shows "fs1 = fs\<lparr>dirs := dirs fs \<union> set (prefixes p)\<rparr>"
    and "makedirs_fault e p = None"
    and "find (\<lambda>q. files fs q \<noteq> None) (prefixes p) = None"
  using assms by (auto simp: makedirs_def split: option.splits)

lemma makedirs_again:
  assumes "makedirs e p fs = (Inr u, fs1)"
  shows "makedirs e p fs1 = (Inr (), fs1)"
proof -
  note r = makedirs_result [OF assms]
  have "dirs fs1 \<union> set (prefixes p) = dirs fs1"
    using r(1) by auto
  then have "fs1\<lparr>dirs := dirs fs1 \<union> set (prefixes p)\<rparr> = fs1"
    by simp
  moreover have "files fs1 = files fs"
    using r(1) by simp
  ultimately show ?thesis
    using r(2) r(3) by (simp add: makedirs_def)
qed

lemma mkstemp_inner_no_directory:
  "d \<notin> dirs (fs::filesystem) \<Longrightarrow> \<exists>m. mkstemp_inner e d sfx ns fs = (Inl (Exception m), fs)"
  by (cases ns) (simp_all add: Let_def)

lemma execute_code_no_directory:
  assumes "workspace_dir (self::CodeExecutor) \<notin> dirs (fs::filesystem)"
  shows "\<exists>m. NamedTemporaryFile e ''.py'' (workspace_dir self) fs = (Inl (Exception m), fs)
             \<and> execute_code e self code timeout fs
                 = (Inr \<lparr>stdout = [], stderr = m, returncode = - 1\<rparr>, fs)"
proof -
  obtain m where
    c: "NamedTemporaryFile e ''.py'' (workspace_dir self) fs = (Inl (Exception m), fs)"
    using mkstemp_inner_no_directory [OF assms, of e "''.py''" "candidate_names e"]
    by (auto simp: NamedTemporaryFile_def)
  then have "execute_code_try e self code timeout fs = (Inl (Exception m), fs)"
    by (rule try_no_file)
  then have "execute_code e self code timeout fs
               = (Inr \<lparr>stdout = [], stderr = m, returncode = - 1\<rparr>, fs)"
    by (rule handler_exception)
  with c show ?thesis by blast
qed

lemma init_ensures:
  assumes "CodeExecutor_init e workspace fs = (Inr self, fs1)"
  shows "ensure_workspace e self fs = (Inr (), fs1)"
    and "workspace_dir self
           = (case workspace of None \<Rightarrow> home e @ [''.termux_ai_assistant''] | Some d \<Rightarrow> d)"
  using assms
  by (auto simp: CodeExecutor_init_def Let_def split: prod.splits sum.splits)

text \<open>
  C6. The claim: every call of \<open>execute_code\<close> first makes sure that the workspace
  directory exists. In the code \<^verbatim>\<open>_ensure_workspace\<close> is called by the constructor and
  by nothing else. What holds: the constructor makes sure the directory exists before
  any scratch file is written, creating it with all the directories above it; doing so
  again changes nothing and succeeds again; and \<open>execute_code\<close> does not do it: called
  with the directory missing, it creates nothing, leaves the file system as it is and
  returns a result with the return code \<open>-1\<close> and the text of the error that the
  creation of the scratch file raised.
\<close>

theorem workspace_ensured_by_constructor:
  "(\<forall>self fs1. CodeExecutor_init e workspace fs = (Inr self, fs1) \<longrightarrow>
       ensure_workspace e self fs = (Inr (), fs1))
   \<and> (\<forall>self fs1. ensure_workspace e self fs = (Inr (), fs1) \<longrightarrow>
       workspace_dir self \<in> dirs fs1
       \<and> set (prefixes (workspace_dir self)) \<subseteq> dirs fs1
       \<and> dirs fs \<subseteq> dirs fs1
       \<and> files fs1 = files fs
       \<and> ensure_workspace e self fs1 = (Inr (), fs1))
   \<and> (\<forall>self code timeout. workspace_dir (self::CodeExecutor) \<notin> dirs fs \<longrightarrow>
       (\<exists>m. NamedTemporaryFile e ''.py'' (workspace_dir self) fs = (Inl (Exception m), fs)
            \<and> execute_code e self code timeout fs
                = (Inr \<lparr>stdout = [], stderr = m, returncode = - 1\<rparr>, fs)))"
proof (intro conjI allI impI)
  fix self fs1
  assume "CodeExecutor_init e workspace fs = (Inr self, fs1)"
  then show "ensure_workspace e self fs = (Inr (), fs1)"
    by (rule init_ensures(1))
next
  fix self fs1
  assume "ensure_workspace e self fs = (Inr (), fs1)"
  then have m: "makedirs e (workspace_dir self) fs = (Inr (), fs1)"
    by (simp add: ensure_workspace_def)
  note r = makedirs_result(1) [OF m]
  show "workspace_dir self \<in> dirs fs1"
    using r by (simp add: in_set_prefixes)
  show "set (prefixes (workspace_dir self)) \<subseteq> dirs fs1"
    using r by simp
  show "dirs fs \<subseteq> dirs fs1"
    using r by simp
  show "files fs1 = files fs"
    using r by simp
  show "ensure_workspace e self fs1 = (Inr (), fs1)"
    using makedirs_again [OF m] by (simp add: ensure_workspace_def)
next
  fix self :: CodeExecutor and code timeout
  assume "workspace_dir self \<notin> dirs fs"
  then show "\<exists>m. NamedTemporaryFile e ''.py'' (workspace_dir self) fs = (Inl (Exception m), fs)
                 \<and> execute_code e self code timeout fs
                     = (Inr \<lparr>stdout = [], stderr = m, returncode = - 1\<rparr>, fs)"
    by (rule execute_code_no_directory)
qed

lemma init_removed:
  "CodeExecutor_init env_termux (Some [''ws'']) fs_removed = (Inr executor_ws, fs_ws)"
  by (auto simp: CodeExecutor_init_def ensure_workspace_def makedirs_def env_termux_def
      executor_ws_def fs_removed_def fs_ws_def)

lemma ensure_removed:
  "ensure_workspace env_termux executor_ws fs_removed = (Inr (), fs_ws)"
  by (auto simp: ensure_workspace_def makedirs_def env_termux_def
      executor_ws_def fs_removed_def fs_ws_def)

lemma removed_no_workspace: "workspace_dir executor_ws \<notin> dirs fs_removed"
  by (simp add: executor_ws_def fs_removed_def)

theorem workspace_ensured_by_constructor_witness:
  "CodeExecutor_init env_termux (Some [''ws'']) fs_removed = (Inr executor_ws, fs_ws)
   \<and> ensure_workspace env_termux executor_ws fs_removed = (Inr (), fs_ws)
   \<and> workspace_dir executor_ws \<in> dirs fs_ws
   \<and> ensure_workspace env_termux executor_ws fs_ws = (Inr (), fs_ws)
   \<and> workspace_dir executor_ws \<notin> dirs fs_removed
   \<and> (\<exists>m. execute_code env_termux executor_ws code_hello default_timeout fs_removed
            = (Inr \<lparr>stdout = [], stderr = m, returncode = - 1\<rparr>, fs_removed))"
  using workspace_ensured_by_constructor [of env_termux "Some [''ws'']" fs_removed]
    init_removed ensure_removed removed_no_workspace
  by blast

text \<open>
  The claim as it is written fails: the executor is constructed, which creates \<^verbatim>\<open>/ws\<close>;
  the directory is then removed; the next call of \<open>execute_code\<close> does not create it
  again, fails to create its scratch file, and leaves the directory missing.
\<close>

theorem execute_code_ensures_workspace_counterexample:
  "CodeExecutor_init env_termux (Some [''ws'']) fs_removed = (Inr executor_ws, fs_ws)
   \<and> workspace_dir executor_ws \<notin> dirs fs_removed
   \<and> execute_code env_termux executor_ws code_hello default_timeout fs_removed
       = (Inr \<lparr>stdout = [],
               stderr = ''[Errno 2] No such file or directory: '' @ quote (fspath scratch_ws),
               returncode = - 1\<rparr>, fs_removed)
   \<and> workspace_dir executor_ws \<notin> dirs (snd (execute_code env_termux executor_ws code_hello default_timeout fs_removed))"
proof -
  have "NamedTemporaryFile env_termux ''.py'' (workspace_dir executor_ws) fs_removed
          = (Inl (Exception (''[Errno 2] No such file or directory: ''
                @ quote (fspath scratch_ws))), fs_removed)"
    by (simp add: NamedTemporaryFile_def env_termux_def executor_ws_def fs_removed_def
        scratch_ws_def Let_def)
  then have "execute_code env_termux executor_ws code_hello default_timeout fs_removed
          = (Inr \<lparr>stdout = [],
                  stderr = ''[Errno 2] No such file or directory: '' @ quote (fspath scratch_ws),
                  returncode = - 1\<rparr>, fs_removed)"
    by (intro handler_exception try_no_file)
  then show ?thesis
    using init_removed removed_no_workspace by simp
qed

section \<open>Two calls on one workspace\<close>













section \<open>The generator mediator\<close>

lemma strip_decompose:
  "s = takeWhile isspace s @ strip s @ rev (takeWhile isspace (rev (dropWhile isspace s)))"
proof -
  let ?d = "dropWhile isspace s"
  have "strip s @ rev (takeWhile isspace (rev ?d))
          = rev (takeWhile isspace (rev ?d) @ dropWhile isspace (rev ?d))"
    by (simp only: strip_def rev_append)
  also have "\<dots> = rev (rev ?d)"
    by (simp only: takeWhile_dropWhile_id)
  also have "\<dots> = ?d"
    by simp
  finally have "takeWhile isspace s @ strip s @ rev (takeWhile isspace (rev ?d))
                  = takeWhile isspace s @ ?d"
    by simp
  then show ?thesis by simp
qed

lemma list_all_takeWhile: "list_all P (takeWhile P xs)"
  by (induction xs) simp_all

lemma strip_trimmed:
  assumes "strip s \<noteq> []"
  shows "\<not> isspace (hd (strip s))" and "\<not> isspace (last (strip s))"
proof -
  let ?d = "dropWhile isspace s"
  let ?r = "dropWhile isspace (rev ?d)"
  have r: "?r \<noteq> []" using assms by (simp add: strip_def)
  then have "\<not> isspace (hd ?r)" by (rule hd_dropWhile)
  moreover have "last (strip s) = hd ?r"
    using r by (simp add: strip_def last_rev)
  ultimately show "\<not> isspace (last (strip s))" by simp
  have "?d = strip s @ rev (takeWhile isspace (rev ?d))"
    using strip_decompose [of s] by (metis same_append_eq takeWhile_dropWhile_id)
  then have "hd ?d = hd (strip s)"
    using assms by (metis hd_append2)
  moreover have "?d \<noteq> []"
  proof
    assume e: "?d = []"
    have "?r = []" unfolding e by simp
    with r show False ..
  qed
  then have "\<not> isspace (hd ?d)" by (rule hd_dropWhile)
  ultimately show "\<not> isspace (hd (strip s))" by simp
qed

lemma try_answered:
  assumes "aiplatform_Model b ''gemini-1.5-pro'' = None"
    and "predict b sent (format_prompt prompt) = Inr (Response (Inr v))"
  shows "generate_code_try b self prompt sent = (extract_code v, sent @ [format_prompt prompt])"
  using assms by (simp add: generate_code_try_def)

text \<open>
  C8. Whatever text the backend answers with, \<open>generate_code\<close> returns that text with
  the white space at its two ends removed and nothing else changed: the answer is the
  result between a run of white space before it and a run of white space after it, and
  the result neither starts nor ends with white space. Fences and language tags stay.
\<close>

theorem generate_code_strips_only:
  assumes "aiplatform_Model b ''gemini-1.5-pro'' = None"
    and "predict b sent (format_prompt prompt) = Inr (Response (Inr (PyStr t)))"
  shows "generate_code b self prompt sent = (Inr (strip t), sent @ [format_prompt prompt])
         \<and> (\<exists>before after. t = before @ strip t @ after
               \<and> list_all isspace before \<and> list_all isspace after)
         \<and> (strip t = [] \<or> \<not> isspace (hd (strip t)) \<and> \<not> isspace (last (strip t)))"
proof (intro conjI)
  show "generate_code b self prompt sent = (Inr (strip t), sent @ [format_prompt prompt])"
    using try_answered [OF assms] by (simp add: generate_code_def extract_code_def)
  have "list_all isspace (rev (takeWhile isspace (rev (dropWhile isspace t))))"
    by (simp add: list_all_takeWhile)
  then show "\<exists>before after. t = before @ strip t @ after
               \<and> list_all isspace before \<and> list_all isspace after"
    using strip_decompose [of t] list_all_takeWhile [of isspace t] by blast
  show "strip t = [] \<or> \<not> isspace (hd (strip t)) \<and> \<not> isspace (last (strip t))"
    using strip_trimmed [of t] by blast
qed

lemma strip_fenced:
  "strip fenced_answer = ''```python'' @ nl @ ''print(1)'' @ nl @ ''```''"
  by (simp add: strip_def fenced_answer_def nl_def isspace_def)

theorem generate_code_strips_only_witness:
  "aiplatform_Model backend_ok ''gemini-1.5-pro'' = None
   \<and> predict backend_ok [] (format_prompt ''say 1'') = Inr (Response (Inr (PyStr fenced_answer)))
   \<and> generate_code backend_ok client0 ''say 1'' []
       = (Inr (''```python'' @ nl @ ''print(1)'' @ nl @ ''```''), [format_prompt ''say 1''])"
proof -
  have a: "aiplatform_Model backend_ok ''gemini-1.5-pro'' = None"
    by (simp add: backend_ok_def)
  have b: "predict backend_ok [] (format_prompt ''say 1'')
             = Inr (Response (Inr (PyStr fenced_answer)))"
    by (simp add: backend_ok_def)
  show ?thesis
    using generate_code_strips_only [OF a b, of client0] a b by (simp add: strip_fenced)
qed

lemma dropWhile_all: "list_all P xs \<Longrightarrow> dropWhile P xs = []"
  by (induction xs) simp_all

lemma strip_blank: "list_all isspace t \<Longrightarrow> strip t = []"
  by (simp add: strip_def dropWhile_all)

text \<open>
  C7. The claim: whenever the backend fails, an empty response included,
  \<open>generate_code\<close> fails with one error that wraps the fault, without a retry and without
  code. What the code does: whenever anything in its try block raises, that is the model
  handle cannot be made, the request raises (a network or an authentication fault), or
  the response has no text to read or \<^verbatim>\<open>None\<close> as its text, \<open>generate_code\<close> raises
  one exception whose text is \<^verbatim>\<open>Code generation failed: \<close> followed by the text of the
  fault, returns no code, and has sent at most the one request; a fault while the client
  is initialised is wrapped the same way by the constructor; and an answer whose text is
  empty or all white space is no failure: \<open>generate_code\<close> returns the empty string.
\<close>

theorem generate_code_wraps_fault:
  "(\<forall>x. (aiplatform_Model b ''gemini-1.5-pro'' = Some x
          \<or> aiplatform_Model b ''gemini-1.5-pro'' = None
             \<and> (predict b sent (format_prompt prompt) = Inl x
                \<or> predict b sent (format_prompt prompt) = Inr (Response (Inl x))
                \<or> predict b sent (format_prompt prompt) = Inr (Response (Inr PyNone))
                   \<and> x = Exception (quote ''NoneType'' @ '' object has no attribute ''
                                      @ quote ''strip'')))
       \<longrightarrow> generate_code b self prompt sent
             = (Inl (Exception (''Code generation failed: '' @ str x)),
                if aiplatform_Model b ''gemini-1.5-pro'' = None
                then sent @ [format_prompt prompt] else sent))
   \<and> (\<forall>y. (load_credentials_from_file b path = Inl y
          \<or> (\<exists>credentials project.
                load_credentials_from_file b path = Inr (credentials, project)
                \<and> aiplatform_init b credentials = Some y))
       \<longrightarrow> AIClient_init b path
             = Inl (Exception (''Failed to initialize AI client: '' @ str y)))
   \<and> (\<forall>t. aiplatform_Model b ''gemini-1.5-pro'' = None
          \<and> predict b sent (format_prompt prompt) = Inr (Response (Inr (PyStr t)))
          \<and> list_all isspace t
       \<longrightarrow> generate_code b self prompt sent = (Inr [], sent @ [format_prompt prompt]))"
proof (intro conjI allI impI)
  fix x
  assume "aiplatform_Model b ''gemini-1.5-pro'' = Some x
          \<or> aiplatform_Model b ''gemini-1.5-pro'' = None
             \<and> (predict b sent (format_prompt prompt) = Inl x
                \<or> predict b sent (format_prompt prompt) = Inr (Response (Inl x))
                \<or> predict b sent (format_prompt prompt) = Inr (Response (Inr PyNone))
                   \<and> x = Exception (quote ''NoneType'' @ '' object has no attribute ''
                                      @ quote ''strip''))"
  then show "generate_code b self prompt sent
             = (Inl (Exception (''Code generation failed: '' @ str x)),
                if aiplatform_Model b ''gemini-1.5-pro'' = None
                then sent @ [format_prompt prompt] else sent)"
    by (auto simp: generate_code_def generate_code_try_def extract_code_def)
next
  fix y
  assume "load_credentials_from_file b path = Inl y
          \<or> (\<exists>credentials project.
                load_credentials_from_file b path = Inr (credentials, project)
                \<and> aiplatform_init b credentials = Some y)"
  then show "AIClient_init b path
             = Inl (Exception (''Failed to initialize AI client: '' @ str y))"
    by (auto simp: AIClient_init_def initialize_client_def initialize_client_try_def)
next
  fix t
  assume "aiplatform_Model b ''gemini-1.5-pro'' = None
          \<and> predict b sent (format_prompt prompt) = Inr (Response (Inr (PyStr t)))
          \<and> list_all isspace t"
  then show "generate_code b self prompt sent = (Inr [], sent @ [format_prompt prompt])"
    using try_answered [of b sent prompt "PyStr t" self]
    by (simp add: generate_code_def extract_code_def strip_blank)
qed

theorem generate_code_wraps_fault_witness:
  "aiplatform_Model backend_flaky ''gemini-1.5-pro'' = None
   \<and> predict backend_flaky [] (format_prompt ''say 1'') = Inl (Exception ''503 Service Unavailable'')
   \<and> generate_code backend_flaky client0 ''say 1'' []
       = (Inl (Exception ''Code generation failed: 503 Service Unavailable''),
          [format_prompt ''say 1''])
   \<and> predict backend_flaky [format_prompt ''say 1''] (format_prompt ''say 1'')
       = Inr (Response (Inr (PyStr fenced_answer)))
   \<and> load_credentials_from_file backend_nocred (credentials_path client0)
       = Inl (Exception ''File credentials.json was not found.'')
   \<and> AIClient_init backend_nocred (credentials_path client0)
       = Inl (Exception ''Failed to initialize AI client: File credentials.json was not found.'')
   \<and> predict backend_empty [] (format_prompt ''say 1'') = Inr (Response (Inr (PyStr [])))
   \<and> list_all isspace []
   \<and> generate_code backend_empty client0 ''say 1'' [] = (Inr [], [format_prompt ''say 1''])"
proof -
  have a: "aiplatform_Model backend_flaky ''gemini-1.5-pro'' = None"
    by (simp add: backend_flaky_def backend_ok_def)
  have b: "predict backend_flaky [] (format_prompt ''say 1'')
             = Inl (Exception ''503 Service Unavailable'')"
    by (simp add: backend_flaky_def)
  have c: "predict backend_flaky [format_prompt ''say 1''] (format_prompt ''say 1'')
             = Inr (Response (Inr (PyStr fenced_answer)))"
    by (simp add: backend_flaky_def)
  have d: "load_credentials_from_file backend_nocred (credentials_path client0)
             = Inl (Exception ''File credentials.json was not found.'')"
    by (simp add: backend_nocred_def)
  have f: "aiplatform_Model backend_empty ''gemini-1.5-pro'' = None"
    by (simp add: backend_empty_def backend_ok_def)
  have g: "predict backend_empty [] (format_prompt ''say 1'') = Inr (Response (Inr (PyStr [])))"
    by (simp add: backend_empty_def)
  show ?thesis
    using generate_code_wraps_fault
        [where b = backend_flaky and sent = "[]" and prompt = "''say 1''" and self = client0]
      generate_code_wraps_fault
        [where b = backend_nocred and path = "credentials_path client0"]
      generate_code_wraps_fault
        [where b = backend_empty and sent = "[]" and prompt = "''say 1''" and self = client0]
      a b c d f g
    by simp
qed

text \<open>
  The claim as it is written fails for the empty response: the backend answers with an
  empty text, and \<open>generate_code\<close> raises nothing and returns the empty string as the
  generated code.
\<close>

theorem generate_code_empty_response_counterexample:
  "predict backend_empty [] (format_prompt ''say 1'') = Inr (Response (Inr (PyStr [])))
   \<and> generate_code backend_empty client0 ''say 1'' [] = (Inr [], [format_prompt ''say 1''])"
  by (simp add: generate_code_def generate_code_try_def extract_code_def strip_def
      backend_empty_def backend_ok_def)

end
